theory Spec2Isabelle
  imports Complex_Main "HOL-Library.Char_ord" "HOL-Library.List_Lexorder"
begin

section \<open>Floating-point values\<close>

text \<open>
  The simulation core computes with Python and numpy floats. A float is modelled as a
  real number or one of the three special values of IEEE arithmetic. Arithmetic on
  finite values is exact: rounding, overflow to infinity and the sign of zero are not
  modelled. What is modelled is where the special values come from and how they spread:
  numpy's division by zero gives an infinity or NaN instead of raising, an undefined
  form such as \<open>inf - inf\<close> or \<open>0 * inf\<close> gives NaN, NaN spreads through every operation
  and every comparison with NaN is false.
\<close>

datatype fl = Fin real | PInf | NInf | NaN

instantiation fl :: "{plus, minus, uminus, times, divide, ord}"
begin

fun uminus_fl :: "fl \<Rightarrow> fl" where
  "uminus_fl (Fin x) = Fin (- x)"
| "uminus_fl PInf = NInf"
| "uminus_fl NInf = PInf"
| "uminus_fl NaN = NaN"

fun plus_fl :: "fl \<Rightarrow> fl \<Rightarrow> fl" where
  "plus_fl (Fin x) (Fin y) = Fin (x + y)"
| "plus_fl NaN y = NaN"
| "plus_fl x NaN = NaN"
| "plus_fl PInf NInf = NaN"
| "plus_fl NInf PInf = NaN"
| "plus_fl PInf y = PInf"
| "plus_fl NInf y = NInf"
| "plus_fl x PInf = PInf"
| "plus_fl x NInf = NInf"

definition minus_fl :: "fl \<Rightarrow> fl \<Rightarrow> fl" where
  "minus_fl x y = x + (- y)"

text \<open>The sign of an infinite product or quotient: \<open>s\<close> is true for a positive result.\<close>

fun signed_inf :: "bool \<Rightarrow> fl" where
  "signed_inf True = PInf"
| "signed_inf False = NInf"

fun times_fl :: "fl \<Rightarrow> fl \<Rightarrow> fl" where
  "times_fl (Fin x) (Fin y) = Fin (x * y)"
| "times_fl NaN y = NaN"
| "times_fl x NaN = NaN"
| "times_fl (Fin x) PInf = (if x = 0 then NaN else signed_inf (0 < x))"
| "times_fl (Fin x) NInf = (if x = 0 then NaN else signed_inf (x < 0))"
| "times_fl PInf (Fin y) = (if y = 0 then NaN else signed_inf (0 < y))"
| "times_fl NInf (Fin y) = (if y = 0 then NaN else signed_inf (y < 0))"
| "times_fl PInf PInf = PInf"
| "times_fl PInf NInf = NInf"
| "times_fl NInf PInf = NInf"
| "times_fl NInf NInf = PInf"

text \<open>
  numpy's true division: a finite non-zero value over zero is an infinity with the sign
  of the numerator, zero over zero is NaN, and nothing is raised.
\<close>

fun divide_fl :: "fl \<Rightarrow> fl \<Rightarrow> fl" where
  "divide_fl (Fin x) (Fin y) =
     (if y = 0 then (if x = 0 then NaN else signed_inf (0 < x)) else Fin (x / y))"
| "divide_fl NaN y = NaN"
| "divide_fl x NaN = NaN"
| "divide_fl (Fin x) PInf = Fin 0"
| "divide_fl (Fin x) NInf = Fin 0"
| "divide_fl PInf (Fin y) = signed_inf (0 \<le> y)"
| "divide_fl NInf (Fin y) = signed_inf (y < 0)"
| "divide_fl PInf PInf = NaN"
| "divide_fl PInf NInf = NaN"
| "divide_fl NInf PInf = NaN"
| "divide_fl NInf NInf = NaN"

fun less_eq_fl :: "fl \<Rightarrow> fl \<Rightarrow> bool" where
  "less_eq_fl (Fin x) (Fin y) = (x \<le> y)"
| "less_eq_fl NaN y = False"
| "less_eq_fl x NaN = False"
| "less_eq_fl NInf y = True"
| "less_eq_fl x PInf = True"
| "less_eq_fl PInf y = False"
| "less_eq_fl x NInf = False"

fun less_fl :: "fl \<Rightarrow> fl \<Rightarrow> bool" where
  "less_fl (Fin x) (Fin y) = (x < y)"
| "less_fl NaN y = False"
| "less_fl x NaN = False"
| "less_fl PInf y = False"
| "less_fl x NInf = False"
| "less_fl NInf y = True"
| "less_fl x PInf = True"

instance ..

end

instantiation fl :: inverse
begin

definition inverse_fl :: "fl \<Rightarrow> fl" where
  "inverse_fl x = divide (Fin 1) x"

instance ..

end

fun fl_exp :: "fl \<Rightarrow> fl" where
  "fl_exp (Fin x) = Fin (exp x)"
| "fl_exp PInf = PInf"
| "fl_exp NInf = Fin 0"
| "fl_exp NaN = NaN"

fun fl_sin :: "fl \<Rightarrow> fl" where
  "fl_sin (Fin x) = Fin (sin x)"
| "fl_sin x = NaN"

text \<open>
  Python's builtin \<open>max(a, b)\<close> keeps its first argument unless the second is greater,
  so a NaN in second place is dropped and a NaN in first place is kept.
\<close>

definition py_max :: "fl \<Rightarrow> fl \<Rightarrow> fl" where
  "py_max a b = (if a < b then b else a)"

section \<open>Errors and arrays\<close>

datatype error = ValueError | IndexError | OverflowError | KeyError
  | FileNotFoundError | EmptyDataError

definition ebind :: "error + 'a \<Rightarrow> ('a \<Rightarrow> error + 'b) \<Rightarrow> error + 'b" where
  "ebind m f = (case m of Inl e \<Rightarrow> Inl e | Inr x \<Rightarrow> f x)"

text \<open>
  \<open>ndarray.max()\<close> and \<open>ndarray.min()\<close>: a ValueError on an empty array, NaN as soon as
  one element is NaN.
\<close>

definition np_maximum :: "fl \<Rightarrow> fl \<Rightarrow> fl" where
  "np_maximum a b = (if a = NaN \<or> b = NaN then NaN else if a < b then b else a)"

definition np_minimum :: "fl \<Rightarrow> fl \<Rightarrow> fl" where
  "np_minimum a b = (if a = NaN \<or> b = NaN then NaN else if b < a then b else a)"

fun amax :: "fl list \<Rightarrow> error + fl" where
  "amax [] = Inl ValueError"
| "amax (x # xs) = Inr (foldl np_maximum x xs)"

fun amin :: "fl list \<Rightarrow> error + fl" where
  "amin [] = Inl ValueError"
| "amin (x # xs) = Inr (foldl np_minimum x xs)"

section \<open>Control signal generator\<close>

text \<open>
  \<open>control_signal(t, signal_type, amp, freq, step_time)\<close> of \<open>train.py\<close>: the factor
  \<open>u(t)\<close> for every sample of the array \<open>t\<close>. The signal type is the string the caller
  passes, compared branch by branch as in the source; \<open>step_time\<close> is \<open>None\<close> or a float.
\<close>

definition control_signal ::
  "fl list \<Rightarrow> string \<Rightarrow> fl \<Rightarrow> fl \<Rightarrow> fl option \<Rightarrow> error + fl list" where
  "control_signal t signal_type amp freq step_time =
    (if signal_type = ''step'' then
       ebind (case step_time of
                None \<Rightarrow> ebind (amax t) (\<lambda>mx. ebind (amin t) (\<lambda>mn. Inr ((mx - mn) / Fin 2)))
              | Some s \<Rightarrow> Inr s)
         (\<lambda>step_time. Inr (map (\<lambda>x. if step_time \<le> x then Fin 1 + amp else Fin 1) t))
     else if signal_type = ''impulse'' then
       ebind (case step_time of
                None \<Rightarrow> ebind (amax t) (\<lambda>mx. ebind (amin t) (\<lambda>mn. Inr ((mx + mn) / Fin 2)))
              | Some s \<Rightarrow> Inr s)
         (\<lambda>center. ebind (amax t) (\<lambda>mx. ebind (amin t) (\<lambda>mn.
            let width = py_max ((mx - mn) * Fin (2 / 100)) (Fin (1 / 2))
            in Inr (map (\<lambda>x. Fin 1 + amp *
                   fl_exp (Fin (- (1 / 2)) * (((x - center) / width) * ((x - center) / width)))) t))))
     else if signal_type = ''ramp'' then
       ebind (amin t) (\<lambda>t0. ebind (amax t) (\<lambda>t1.
         Inr (map (\<lambda>x. Fin 1 + amp * ((x - t0) / (t1 - t0))) t)))
     else if signal_type = ''sin'' then
       ebind (amin t) (\<lambda>mn. ebind (amax t) (\<lambda>mx. ebind (amin t) (\<lambda>mn'.
         Inr (map (\<lambda>x. Fin 1 + amp *
                fl_sin (Fin (2 * pi) * freq * (x - mn) / py_max (Fin 1) (mx - mn'))) t))))
     else Inr (map (\<lambda>x. Fin 1) t))"

section \<open>SIR right-hand side\<close>

text \<open>
  \<open>sir_ode(y, t, beta, gamma, N, signal_type, amp, freq, step_time)\<close>: the control
  signal is evaluated on the one-element array \<open>[t]\<close> and its element 0 multiplies
  \<open>beta\<close>.
\<close>

definition sir_ode ::
  "fl \<times> fl \<times> fl \<Rightarrow> fl \<Rightarrow> fl \<Rightarrow> fl \<Rightarrow> fl \<Rightarrow> string \<Rightarrow> fl \<Rightarrow> fl \<Rightarrow> fl option
     \<Rightarrow> error + (fl \<times> fl \<times> fl)" where
  "sir_ode y t beta gamma N signal_type amp freq step_time =
    (case y of (S, I, R) \<Rightarrow>
       ebind (control_signal [t] signal_type amp freq step_time) (\<lambda>us.
         case us of
           [] \<Rightarrow> Inl IndexError
         | u # _ \<Rightarrow>
             let beta_eff = beta * u;
                 dSdt = - beta_eff * S * I / N;
                 dIdt = beta_eff * S * I / N - gamma * I;
                 dRdt = gamma * I
             in Inr (dSdt, dIdt, dRdt)))"

section \<open>Simulation\<close>

text \<open>
  \<open>numpy.linspace(start, stop, num)\<close> with the default \<open>endpoint=True\<close>: a negative
  \<open>num\<close> is a ValueError; otherwise sample \<open>i\<close> is \<open>i * step + start\<close> with
  \<open>step = (stop - start) / (num - 1)\<close>, and for more than one sample the last one is
  set to \<open>stop\<close> itself. For a single sample numpy multiplies by the whole span instead.
\<close>

definition linspace :: "fl \<Rightarrow> fl \<Rightarrow> int \<Rightarrow> error + fl list" where
  "linspace start stop num =
    (if num < 0 then Inl ValueError
     else let n = nat num;
              delta = stop - start;
              step = (if 1 < n then delta / Fin (real (n - 1)) else delta);
              y = map (\<lambda>i. Fin (real i) * step + start) [0..<n]
          in Inr (if 1 < n then butlast y @ [stop] else y))"

text \<open>
  \<open>simulate_sir\<close>. The integrator \<open>scipy.integrate.odeint\<close> is a library routine
  outside the repository; it is the parameter \<open>odeint\<close>, called with the right-hand
  side, the initial state and the time grid as the source calls it. \<open>ret.T\<close> splits the
  rows of the result into the three series.
\<close>

definition simulate_sir ::
  "((fl \<times> fl \<times> fl \<Rightarrow> fl \<Rightarrow> error + (fl \<times> fl \<times> fl)) \<Rightarrow> fl \<times> fl \<times> fl \<Rightarrow> fl list
      \<Rightarrow> error + (fl \<times> fl \<times> fl) list)
   \<Rightarrow> fl \<Rightarrow> fl \<Rightarrow> fl \<Rightarrow> fl \<Rightarrow> fl \<Rightarrow> fl \<Rightarrow> int \<Rightarrow> string \<Rightarrow> fl \<Rightarrow> fl \<Rightarrow> fl option
   \<Rightarrow> error + (fl list \<times> fl list \<times> fl list \<times> fl list \<times> fl list)" where
  "simulate_sir odeint beta gamma N I0 R0 days npoints signal_type amp freq step_time =
    (let S0 = py_max (N - I0 - R0) (Fin 0);
         y0 = (S0, I0, R0)
     in ebind (linspace (Fin 0) days npoints) (\<lambda>t.
        ebind (odeint (\<lambda>y t. sir_ode y t beta gamma N signal_type amp freq step_time) y0 t) (\<lambda>ret.
        ebind (control_signal t signal_type amp freq step_time) (\<lambda>u.
          Inr (t, map fst ret, map (\<lambda>r. fst (snd r)) ret, map (\<lambda>r. snd (snd r)) ret, u)))))"

text \<open>The default sample count of \<open>simulate_sir\<close> and \<open>run_simulation_and_save\<close>.\<close>

definition default_npoints :: int where
  "default_npoints = 500"

section \<open>Summary and statistics\<close>

text \<open>
  \<open>numpy.nanargmax\<close>: NaN entries count as minus infinity, the first index of the
  greatest entry is returned, and an empty or all-NaN array is a ValueError.
\<close>

fun argmax_from :: "fl list \<Rightarrow> nat \<Rightarrow> fl \<Rightarrow> nat \<Rightarrow> nat" where
  "argmax_from [] i best best_i = best_i"
| "argmax_from (x # xs) i best best_i =
     (if best < x then argmax_from xs (Suc i) x i else argmax_from xs (Suc i) best best_i)"

definition nanargmax :: "fl list \<Rightarrow> error + nat" where
  "nanargmax a =
    (if a = [] then Inl ValueError
     else if list_all (\<lambda>x. x = NaN) a then Inl ValueError
     else case map (\<lambda>x. if x = NaN then NInf else x) a of
            [] \<Rightarrow> Inl ValueError
          | x # xs \<Rightarrow> Inr (argmax_from xs 1 x 0))"

text \<open>\<open>numpy.nanmean\<close> and \<open>numpy.nanmax\<close>: only an empty array makes \<open>nanmax\<close> raise.\<close>

definition nanmean :: "fl list \<Rightarrow> fl" where
  "nanmean a =
    (let ys = filter (\<lambda>x. x \<noteq> NaN) a
     in if ys = [] then NaN else foldl (+) (Fin 0) ys / Fin (real (length ys)))"

definition nanmax :: "fl list \<Rightarrow> error + fl" where
  "nanmax a =
    (if a = [] then Inl ValueError
     else case filter (\<lambda>x. x \<noteq> NaN) a of
            [] \<Rightarrow> Inr NaN
          | y # ys \<Rightarrow> Inr (foldl np_maximum y ys))"

text \<open>Indexing \<open>a[i]\<close> and \<open>a[-1]\<close>, with the IndexError of an index out of range.\<close>

definition item :: "'a list \<Rightarrow> nat \<Rightarrow> error + 'a" where
  "item a i = (if i < length a then Inr (a ! i) else Inl IndexError)"

definition item_last :: "'a list \<Rightarrow> error + 'a" where
  "item_last a = (if a = [] then Inl IndexError else Inr (last a))"

text \<open>
  Python's \<open>int(x)\<close> truncates towards zero and \<open>round(x)\<close> rounds to the nearest
  integer, a half to the even neighbour; both raise on NaN and on an infinity.
\<close>

definition trunc :: "real \<Rightarrow> int" where
  "trunc x = (if 0 \<le> x then \<lfloor>x\<rfloor> else \<lceil>x\<rceil>)"

definition round_half_even :: "real \<Rightarrow> int" where
  "round_half_even x =
    (if x - of_int \<lfloor>x\<rfloor> < 1 / 2 then \<lfloor>x\<rfloor>
     else if 1 / 2 < x - of_int \<lfloor>x\<rfloor> then \<lfloor>x\<rfloor> + 1
     else if even \<lfloor>x\<rfloor> then \<lfloor>x\<rfloor> else \<lfloor>x\<rfloor> + 1)"

fun py_int :: "fl \<Rightarrow> error + int" where
  "py_int (Fin x) = Inr (trunc x)"
| "py_int NaN = Inl ValueError"
| "py_int x = Inl OverflowError"

fun py_round :: "fl \<Rightarrow> error + int" where
  "py_round (Fin x) = Inr (round_half_even x)"
| "py_round NaN = Inl ValueError"
| "py_round x = Inl OverflowError"

text \<open>
  The narrative is assembled from fixed templates. A line of the summary is the
  template that was chosen together with the values formatted into it; the joined
  text is the list of its lines in order.
\<close>

datatype line =
    ModelLine fl fl fl
  | PopulationLine int int int
  | PeakLine int fl
  | FinalLine int int int int
  | FastSpread
  | ModerateSpread
  | Declining
  | SignalRaisesBeta string fl
  | SignalSmall string fl
  | NoSignal
  | AdviseIntervention
  | AdviseObservation

record stats =
  peak_I :: fl
  peak_day :: fl
  final_S :: fl
  final_I :: fl
  final_R :: fl

definition R0_basic :: "fl \<Rightarrow> fl \<Rightarrow> fl" where
  "R0_basic beta gamma = (if gamma \<noteq> Fin 0 then beta / gamma else PInf)"

definition generate_summary ::
  "fl \<Rightarrow> fl \<Rightarrow> fl \<Rightarrow> fl \<Rightarrow> fl \<Rightarrow> fl \<Rightarrow> fl list \<Rightarrow> fl list \<Rightarrow> fl list \<Rightarrow> fl list \<Rightarrow> fl list
     \<Rightarrow> string \<Rightarrow> error + (line list \<times> stats)" where
  "generate_summary beta gamma N I0 R0 days t S I R u signal_type =
    ebind (nanargmax I) (\<lambda>peak_idx.
    ebind (item I peak_idx) (\<lambda>pk_I.
    ebind (item t peak_idx) (\<lambda>pk_day.
    ebind (item_last S) (\<lambda>fin_S.
    ebind (item_last I) (\<lambda>fin_I.
    ebind (item_last R) (\<lambda>fin_R.
    let r0 = R0_basic beta gamma;
        line1 = ModelLine beta gamma r0
    in
    ebind (py_int N) (\<lambda>int_N.
    ebind (py_int I0) (\<lambda>int_I0.
    ebind (py_int R0) (\<lambda>int_R0.
    ebind (py_round pk_I) (\<lambda>round_peak.
    ebind (py_int days) (\<lambda>int_days.
    ebind (py_round fin_S) (\<lambda>round_S.
    ebind (py_round fin_I) (\<lambda>round_I.
    ebind (py_round fin_R) (\<lambda>round_R.
    let line2 = PopulationLine int_N int_I0 int_R0;
        line3 = PeakLine round_peak pk_day;
        line4 = FinalLine int_days round_S round_I round_R;
        line5 = (if Fin (3 / 2) < r0 then FastSpread
                 else if Fin 1 < r0 \<and> r0 \<le> Fin (3 / 2) then ModerateSpread
                 else Declining);
        line7 = (if Fin (3 / 2) < r0 then AdviseIntervention else AdviseObservation)
    in
    ebind (if signal_type = [] then Inr NoSignal
           else if signal_type = ''none'' then Inr NoSignal
           else let mean_u = nanmean u
                in ebind (nanmax u) (\<lambda>max_u.
                     Inr (if Fin (105 / 100) < max_u then SignalRaisesBeta signal_type max_u
                          else SignalSmall signal_type mean_u))) (\<lambda>line6.
    Inr ([line1, line2, line3, line4, line5, line6, line7],
         \<lparr>peak_I = pk_I, peak_day = pk_day,
          final_S = fin_S, final_I = fin_I, final_R = fin_R\<rparr>))))))))))))))))"

section \<open>History store\<close>

text \<open>
  The store is the file \<open>data/history.csv\<close>, read and written through pandas. The
  file is absent or holds lines, a line being the list of its comma-separated fields
  (quoting is not modelled). A value of a record is \<open>None\<close>, a missing value (the NaN
  pandas uses for an empty cell), or a scalar given by the text \<open>to_csv\<close> writes for it:
  a string by itself, a number by its shortest decimal form, which \<open>read_csv\<close> parses
  back to the same number. The dtype a column gets on reading is not modelled.
\<close>

datatype pyval = PNone | PNaN | PText string

datatype csv_file = Absent | Present "string list list"

record dataframe =
  columns :: "string list"
  rows :: "pyval list list"

definition HISTORY_COLUMNS :: "string list" where
  "HISTORY_COLUMNS =
    [''id'', ''timestamp'', ''beta'', ''gamma'', ''N'', ''I0'', ''R0'', ''days'',
     ''signal'', ''amp'', ''freq'', ''step_time'', ''peak_I'', ''peak_day'',
     ''final_S'', ''final_I'', ''final_R'', ''summary'']"

text \<open>
  \<open>DataFrame.to_csv(index=False)\<close> writes the header line and one line per row, a
  missing value and \<open>None\<close> as the empty field. \<open>pandas.read_csv\<close> takes the first
  line as the header and reads an empty field, or one of its default NA markers, as
  the missing value; a file without any line is an EmptyDataError.
\<close>

fun write_cell :: "pyval \<Rightarrow> string" where
  "write_cell PNone = []"
| "write_cell PNaN = []"
| "write_cell (PText s) = s"

definition to_csv :: "dataframe \<Rightarrow> csv_file" where
  "to_csv df = Present (columns df # map (map write_cell) (rows df))"

definition na_values :: "string list" where
  "na_values =
    [[], ''#N/A'', ''#N/A N/A'', ''#NA'', ''-1.#IND'', ''-1.#QNAN'', ''-NaN'', ''-nan'',
     ''1.#IND'', ''1.#QNAN'', ''<NA>'', ''N/A'', ''NA'', ''NULL'', ''NaN'', ''None'',
     ''n/a'', ''nan'', ''null'']"

definition read_cell :: "string \<Rightarrow> pyval" where
  "read_cell s = (if s \<in> set na_values then PNaN else PText s)"

fun read_csv :: "csv_file \<Rightarrow> error + dataframe" where
  "read_csv Absent = Inl FileNotFoundError"
| "read_csv (Present []) = Inl EmptyDataError"
| "read_csv (Present (header # ls)) =
     Inr \<lparr>columns = header, rows = map (map read_cell) ls\<rparr>"

text \<open>\<open>os.stat(...).st_size\<close>: the bytes of the fields, their commas and the newlines.\<close>

definition line_bytes :: "string list \<Rightarrow> nat" where
  "line_bytes l = sum_list (map length l) + (length l - 1) + 1"

definition st_size :: "string list list \<Rightarrow> nat" where
  "st_size ls = sum_list (map line_bytes ls)"

definition ensure_history :: "csv_file \<Rightarrow> csv_file" where
  "ensure_history f =
    (case f of
       Absent \<Rightarrow> to_csv \<lparr>columns = HISTORY_COLUMNS, rows = []\<rparr>
     | Present ls \<Rightarrow>
         if st_size ls < 200 then
           (if length ls \<le> 1 then to_csv \<lparr>columns = HISTORY_COLUMNS, rows = []\<rparr>
            else Present ls)
         else Present ls)"

text \<open>
  \<open>pd.concat([df, pd.DataFrame([record])], ignore_index=True)\<close>: the columns of the
  frame followed by the keys of the record it does not have yet; every row is aligned
  to them by name, a cell without a value being missing.
\<close>

definition lookup_cell :: "(string \<times> pyval) list \<Rightarrow> string \<Rightarrow> pyval" where
  "lookup_cell d c = (case map_of d c of None \<Rightarrow> PNaN | Some v \<Rightarrow> v)"

definition concat_record :: "dataframe \<Rightarrow> (string \<times> pyval) list \<Rightarrow> dataframe" where
  "concat_record df record =
    (let cols = columns df @ filter (\<lambda>k. k \<notin> set (columns df)) (map fst record)
     in \<lparr>columns = cols,
         rows = map (\<lambda>r. map (lookup_cell (zip (columns df) r)) cols) (rows df)
                @ [map (lookup_cell record) cols]\<rparr>)"

text \<open>
  \<open>save_history_entry\<close>. The two values it takes from its environment are arguments:
  \<open>entry_id\<close> is \<open>str(uuid.uuid4())\<close> and \<open>ts\<close> is \<open>datetime.utcnow().isoformat()\<close>.
  The result is the file as it is left and the id returned.
\<close>

definition save_history_entry ::
  "csv_file \<Rightarrow> string \<Rightarrow> string \<Rightarrow> pyval \<Rightarrow> pyval \<Rightarrow> pyval \<Rightarrow> pyval \<Rightarrow> pyval \<Rightarrow> pyval \<Rightarrow> pyval
     \<Rightarrow> pyval \<Rightarrow> pyval \<Rightarrow> pyval \<Rightarrow> pyval \<Rightarrow> pyval \<Rightarrow> pyval \<Rightarrow> pyval \<Rightarrow> pyval \<Rightarrow> pyval
     \<Rightarrow> error + (csv_file \<times> string)" where
  "save_history_entry f entry_id ts beta gamma N I0 R0 days signal_type amp freq step_time
       summary_text pk_I pk_day fin_S fin_I fin_R =
    ebind (read_csv (ensure_history f)) (\<lambda>df.
      let record =
            [(''id'', PText entry_id),
             (''timestamp'', PText ts),
             (''beta'', beta),
             (''gamma'', gamma),
             (''N'', N),
             (''I0'', I0),
             (''R0'', R0),
             (''days'', days),
             (''signal'', signal_type),
             (''amp'', amp),
             (''freq'', freq),
             (''step_time'', if step_time \<noteq> PNone then step_time else PText []),
             (''peak_I'', pk_I),
             (''peak_day'', pk_day),
             (''final_S'', fin_S),
             (''final_I'', fin_I),
             (''final_R'', fin_R),
             (''summary'', if summary_text \<noteq> PNone then summary_text else PText [])]
      in Inr (to_csv (concat_record df record), entry_id))"

definition df_empty :: "dataframe \<Rightarrow> bool" where
  "df_empty df = (columns df = [] \<or> rows df = [])"

definition load_history_df :: "csv_file \<Rightarrow> error + (csv_file \<times> dataframe)" where
  "load_history_df f =
    (let f' = ensure_history f
     in ebind (read_csv f') (\<lambda>df.
          if df_empty df then Inr (f', \<lparr>columns = HISTORY_COLUMNS, rows = []\<rparr>)
          else Inr (f', df)))"

text \<open>
  \<open>get_history_entry\<close>: the rows whose \<open>id\<close> cell equals the id, a KeyError when the
  frame has no such column, \<open>None\<close> when no row is left, else the first one as a
  dictionary from column name to value.
\<close>

definition get_history_entry ::
  "csv_file \<Rightarrow> string \<Rightarrow> error + (csv_file \<times> (string \<times> pyval) list option)" where
  "get_history_entry f entry_id =
    ebind (load_history_df f) (\<lambda>(f', df).
      if ''id'' \<in> set (columns df) then
        (case filter (\<lambda>r. lookup_cell (zip (columns df) r) ''id'' = PText entry_id) (rows df) of
           [] \<Rightarrow> Inr (f', None)
         | r # _ \<Rightarrow> Inr (f', Some (zip (columns df) r)))
      else Inl KeyError)"

text \<open>
  The \<open>/history\<close> route of \<open>app.py\<close>, returning the table it hands to the template.
  \<open>strftime\<close> stands for \<open>pd.to_datetime(...).dt.strftime(...)\<close> on one timestamp,
  which raises on a text that is no date. Rows are sorted by their timestamp text,
  latest first.
\<close>

definition timestamp_of :: "string list \<Rightarrow> pyval list \<Rightarrow> string" where
  "timestamp_of cols r = write_cell (lookup_cell (zip cols r) ''timestamp'')"

fun readable_rows ::
  "(string \<Rightarrow> error + string) \<Rightarrow> string list \<Rightarrow> pyval list list
     \<Rightarrow> error + (string \<times> pyval) list list" where
  "readable_rows strftime cols [] = Inr []"
| "readable_rows strftime cols (r # rs) =
     ebind (strftime (timestamp_of cols r)) (\<lambda>s.
     ebind (readable_rows strftime cols rs) (\<lambda>ds.
       Inr ((zip cols r @ [(''timestamp_readable'', PText s)]) # ds)))"

definition history ::
  "(string \<Rightarrow> error + string) \<Rightarrow> csv_file \<Rightarrow> error + (csv_file \<times> (string \<times> pyval) list list)" where
  "history strftime f =
    ebind (load_history_df f) (\<lambda>(f', df).
      if ''timestamp'' \<notin> set (columns df) \<or> df_empty df then Inr (f', [])
      else
        let kept = filter (\<lambda>r. lookup_cell (zip (columns df) r) ''timestamp'' \<noteq> PNaN) (rows df)
        in if kept = [] then Inr (f', [])
           else ebind (readable_rows strftime (columns df)
                         (rev (sort_key (timestamp_of (columns df)) kept)))
                  (\<lambda>table. Inr (f', table)))"

section \<open>Properties of the control signal\<close>

text \<open>
  Supporting facts: the value of every branch on a one-element array of a finite time.
  The step, impulse and sine branches and the fallback give a finite factor there; the
  impulse and sine branches floor the span with \<open>max\<close>, the ramp branch divides by it.
\<close>

lemma control_signal_single_finite:
  assumes "signal_type \<noteq> ''ramp''"
  shows "\<exists>u. control_signal [Fin t] signal_type (Fin amp) (Fin freq) (map_option Fin step_time)
           = Inr [Fin u]"
  using assms
  by (cases step_time)
     (simp_all add: control_signal_def ebind_def minus_fl_def py_max_def Let_def)

lemma control_signal_ramp_single:
  "control_signal [Fin t] ''ramp'' amp freq step_time = Inr [NaN]"
  by (cases amp) (simp_all add: control_signal_def ebind_def minus_fl_def)

text \<open>
  C1. Claimed: on a one-element time array every signal type returns a finite value, the
  ramp included. The ramp branch computes \<open>(t - t0) / (t1 - t0)\<close> with \<open>t0 = t1 = t\<close>,
  a division of zero by zero: at \<open>T = [5.0]\<close> the only sample is NaN.
\<close>

theorem control_signal_ramp_single_point_nan:
  "control_signal [Fin 5] ''ramp'' (Fin (1 / 2)) (Fin 1) None = Inr [NaN]"
  by (rule control_signal_ramp_single)

text \<open>
  Supporting facts for the step branch: with an explicit \<open>step_time\<close> the factor is
  \<open>1 + amp\<close> from \<open>step_time\<close> on (the comparison is \<open>t \<ge> step_time\<close>), and an unset
  \<open>step_time\<close> is replaced by half the span of the array.
\<close>

lemma control_signal_step_explicit:
  "control_signal t ''step'' amp freq (Some s)
     = Inr (map (\<lambda>x. if s \<le> x then Fin 1 + amp else Fin 1) t)"
  by (simp add: control_signal_def ebind_def)

lemma control_signal_step_default:
  "control_signal (x # xs) ''step'' amp freq None
     = Inr (map (\<lambda>y. if (foldl np_maximum x xs - foldl np_minimum x xs) / Fin 2 \<le> y
                      then Fin 1 + amp else Fin 1) (x # xs))"
  by (simp add: control_signal_def ebind_def)

text \<open>
  C2. Claimed: an unset \<open>step_time\<close> defaults to the midpoint \<open>(min + max) / 2\<close>. The
  source computes \<open>(t.max() - t.min()) / 2.0\<close>. On \<open>T = [10, 20]\<close> the threshold is 5, not
  15, and both samples get \<open>1 + amp\<close>; with the midpoint the first would stay at 1.
\<close>

theorem control_signal_step_default_is_half_span:
  "control_signal [Fin 10, Fin 20] ''step'' (Fin (1 / 2)) (Fin 1) None
     = Inr [Fin (3 / 2), Fin (3 / 2)]"
  by (simp add: control_signal_def ebind_def minus_fl_def np_maximum_def np_minimum_def)

text \<open>
  C10. A signal type that is none of \<open>step\<close>, \<open>impulse\<close>, \<open>ramp\<close>, \<open>sin\<close> falls through to
  the last branch: the factor is 1 for every sample, nothing is raised, and the result
  is the one \<open>none\<close> gives.
\<close>

theorem control_signal_unknown_type_is_none:
  assumes "signal_type \<notin> {''step'', ''impulse'', ''ramp'', ''sin''}"
  shows "control_signal t signal_type amp freq step_time = Inr (map (\<lambda>x. Fin 1) t)
       \<and> control_signal t signal_type amp freq step_time
           = control_signal t ''none'' amp freq step_time"
  using assms by (simp add: control_signal_def)

theorem control_signal_unknown_type_is_none_witness:
  "''sine'' \<notin> {''step'', ''impulse'', ''ramp'', ''sin''}
   \<and> control_signal [Fin 0, Fin 1, NaN] ''sine'' (Fin 2) (Fin 3) (Some (Fin 1))
        = Inr [Fin 1, Fin 1, Fin 1]"
  using control_signal_unknown_type_is_none
          [of "''sine''" "[Fin 0, Fin 1, NaN]" "Fin 2" "Fin 3" "Some (Fin 1)"]
  by simp

section \<open>Properties of the right-hand side\<close>





section \<open>Properties of the summary\<close>

text \<open>
  The scan behind \<open>nanargmax\<close> on finite values: it ends on an index of a greatest
  element before which every element is strictly smaller.
\<close>

lemma argmax_from_inv:
  assumes "pre \<noteq> []" "bi < length pre" "pre ! bi = b"
    "\<forall>j < length pre. pre ! j \<le> b" "\<forall>j < bi. pre ! j < b"
  shows "let k = argmax_from (map Fin xs) (length pre) (Fin b) bi in
     k < length (pre @ xs) \<and> (\<forall>j < length (pre @ xs). (pre @ xs) ! j \<le> (pre @ xs) ! k)
     \<and> (\<forall>j < k. (pre @ xs) ! j < (pre @ xs) ! k)"
  using assms
proof (induction xs arbitrary: pre b bi)
  case Nil
  then show ?case by (simp add: Let_def)
next
  case (Cons x xs)
  show ?case
  proof (cases "b < x")
    case True
    have a1: "pre @ [x] \<noteq> []" by simp
    have a2: "length pre < length (pre @ [x])" by simp
    have a3: "(pre @ [x]) ! length pre = x" by simp
    have a4: "\<forall>j < length (pre @ [x]). (pre @ [x]) ! j \<le> x"
      using Cons.prems(4) True by (auto simp: nth_append less_Suc_eq intro: order_trans less_imp_le)
    have a5: "\<forall>j < length pre. (pre @ [x]) ! j < x"
      using Cons.prems(4) True by (auto simp: nth_append intro: le_less_trans)
    from Cons.IH[OF a1 a2 a3 a4 a5] True show ?thesis by (simp add: Let_def)
  next
    case False
    have a1: "pre @ [x] \<noteq> []" by simp
    have a2: "bi < length (pre @ [x])" using Cons.prems(2) by simp
    have a3: "(pre @ [x]) ! bi = b" using Cons.prems(2,3) by (simp add: nth_append)
    have a4: "\<forall>j < length (pre @ [x]). (pre @ [x]) ! j \<le> b"
      using Cons.prems(4) False by (auto simp: nth_append less_Suc_eq)
    have a5: "\<forall>j < bi. (pre @ [x]) ! j < b"
      using Cons.prems(2,5) by (auto simp: nth_append)
    from Cons.IH[OF a1 a2 a3 a4 a5] False show ?thesis by (simp add: Let_def)
  qed
qed

lemma nanargmax_finite:
  assumes "I \<noteq> []"
  shows "\<exists>k. nanargmax (map Fin I) = Inr k \<and> k < length I \<and> I ! k = Max (set I)
     \<and> (\<forall>j < k. I ! j < Max (set I))"
proof -
  obtain x xs where I: "I = x # xs" using assms by (cases I) auto
  define k where "k = argmax_from (map Fin xs) (Suc 0) (Fin x) 0"
  have "let k' = argmax_from (map Fin xs) (length [x]) (Fin x) 0 in
     k' < length ([x] @ xs) \<and> (\<forall>j < length ([x] @ xs). ([x] @ xs) ! j \<le> ([x] @ xs) ! k')
     \<and> (\<forall>j < k'. ([x] @ xs) ! j < ([x] @ xs) ! k')"
    by (rule argmax_from_inv) simp_all
  then have inv: "k < length I \<and> (\<forall>j < length I. I ! j \<le> I ! k) \<and> (\<forall>j < k. I ! j < I ! k)"
    unfolding Let_def I k_def by simp
  have kl: "k < length I" using inv by blast
  have le: "\<forall>y \<in> set I. y \<le> I ! k"
    using inv by (metis in_set_conv_nth)
  have mx: "Max (set I) = I ! k"
    using le kl by (intro Max_eqI) auto
  have "nanargmax (map Fin I) = Inr k"
    by (simp add: nanargmax_def I k_def list_all_iff comp_def)
  then show ?thesis using kl mx inv by auto
qed


lemma item_map_Fin: "k < length xs \<Longrightarrow> item (map Fin xs) k = Inr (Fin (xs ! k))"
  by (simp add: item_def)

lemma item_last_map_Fin: "xs \<noteq> [] \<Longrightarrow> item_last (map Fin xs) = Inr (Fin (last xs))"
  by (simp add: item_last_def last_map)

lemma nanmax_map_Fin: "u \<noteq> [] \<Longrightarrow> \<exists>m. nanmax (map Fin u) = Inr m"
  by (cases u) (simp_all add: nanmax_def)

lemma signal_line_returns:
  assumes "u \<noteq> []"
  shows "\<exists>l. (if signal_type = [] then Inr NoSignal
           else if signal_type = ''none'' then Inr NoSignal
           else let mean_u = nanmean (map Fin u)
                in ebind (nanmax (map Fin u)) (\<lambda>max_u.
                     Inr (if Fin (105 / 100) < max_u then SignalRaisesBeta signal_type max_u
                          else SignalSmall signal_type mean_u))) = (Inr l :: error + line)"
proof -
  obtain m where "nanmax (map Fin u) = Inr m" using nanmax_map_Fin[OF assms] by blast
  then show ?thesis by (simp add: ebind_def Let_def)
qed

lemma generate_summary_finite:
  assumes "I \<noteq> []" "length t = length I" "length S = length I" "length R = length I"
    "length u = length I" "nanargmax (map Fin I) = Inr k" "k < length I"
  shows "\<exists>line6.
    generate_summary (Fin beta) gamma (Fin N) (Fin I0) (Fin R0) (Fin days)
       (map Fin t) (map Fin S) (map Fin I) (map Fin R) (map Fin u) signal_type =
    Inr ([ModelLine (Fin beta) gamma (R0_basic (Fin beta) gamma),
          PopulationLine (trunc N) (trunc I0) (trunc R0),
          PeakLine (round_half_even (I ! k)) (Fin (t ! k)),
          FinalLine (trunc days) (round_half_even (last S)) (round_half_even (last I))
            (round_half_even (last R)),
          (if Fin (3 / 2) < R0_basic (Fin beta) gamma then FastSpread
           else if Fin 1 < R0_basic (Fin beta) gamma \<and> R0_basic (Fin beta) gamma \<le> Fin (3 / 2)
           then ModerateSpread else Declining),
          line6,
          (if Fin (3 / 2) < R0_basic (Fin beta) gamma then AdviseIntervention
           else AdviseObservation)],
         \<lparr>peak_I = Fin (I ! k), peak_day = Fin (t ! k),
          final_S = Fin (last S), final_I = Fin (last I), final_R = Fin (last R)\<rparr>)"
proof -
  have ne: "t \<noteq> []" "S \<noteq> []" "R \<noteq> []" "u \<noteq> []" using assms by auto
  obtain l where l: "(if signal_type = [] then Inr NoSignal
           else if signal_type = ''none'' then Inr NoSignal
           else let mean_u = nanmean (map Fin u)
                in ebind (nanmax (map Fin u)) (\<lambda>max_u.
                     Inr (if Fin (105 / 100) < max_u then SignalRaisesBeta signal_type max_u
                          else SignalSmall signal_type mean_u))) = (Inr l :: error + line)"
    using signal_line_returns[OF ne(4)] by blast
  have kt: "k < length t" using assms by simp
  show ?thesis
    unfolding generate_summary_def
    by (simp add: assms(6) item_map_Fin[OF assms(7)] item_map_Fin[OF kt]
          item_last_map_Fin[OF ne(2)] item_last_map_Fin[OF assms(1)] item_last_map_Fin[OF ne(3)]
          l ebind_def Let_def split del: if_split)
qed

text \<open>
  C5. With \<open>gamma = 0\<close> the guard \<open>gamma != 0\<close> replaces the quotient by infinity. For a
  trajectory of finite samples (not empty, the five series of one length) and finite
  parameters, \<open>generate_summary\<close> returns; its first line carries \<open>R0_basic = inf\<close>, its
  interpretation line is the fast-spread one and its last line advises intervention.
\<close>

theorem generate_summary_gamma_zero:
  assumes "I \<noteq> []" "length t = length I" "length S = length I" "length R = length I"
    "length u = length I"
  shows "R0_basic (Fin beta) (Fin 0) = PInf \<and>
    (\<exists>summary st. generate_summary (Fin beta) (Fin 0) (Fin N) (Fin I0) (Fin R0) (Fin days)
         (map Fin t) (map Fin S) (map Fin I) (map Fin R) (map Fin u) signal_type = Inr (summary, st)
       \<and> length summary = 7
       \<and> summary ! 0 = ModelLine (Fin beta) (Fin 0) PInf
       \<and> summary ! 4 = FastSpread
       \<and> summary ! 6 = AdviseIntervention)"
proof -
  have r0: "R0_basic (Fin beta) (Fin 0) = PInf" by (simp add: R0_basic_def)
  obtain k where k: "nanargmax (map Fin I) = Inr k" "k < length I"
    using nanargmax_finite[OF assms(1)] by blast
  obtain line6 where eq: "generate_summary (Fin beta) (Fin 0) (Fin N) (Fin I0) (Fin R0) (Fin days)
       (map Fin t) (map Fin S) (map Fin I) (map Fin R) (map Fin u) signal_type =
    Inr ([ModelLine (Fin beta) (Fin 0) PInf,
          PopulationLine (trunc N) (trunc I0) (trunc R0),
          PeakLine (round_half_even (I ! k)) (Fin (t ! k)),
          FinalLine (trunc days) (round_half_even (last S)) (round_half_even (last I))
            (round_half_even (last R)),
          FastSpread, line6, AdviseIntervention],
         \<lparr>peak_I = Fin (I ! k), peak_day = Fin (t ! k),
          final_S = Fin (last S), final_I = Fin (last I), final_R = Fin (last R)\<rparr>)"
    using generate_summary_finite[OF assms k, of beta "Fin 0" N I0 R0 days signal_type]
    unfolding r0 by auto
  show ?thesis unfolding eq r0 by simp
qed

theorem generate_summary_gamma_zero_witness:
  "R0_basic (Fin (3 / 10)) (Fin 0) = PInf \<and>
   (\<exists>summary st. generate_summary (Fin (3 / 10)) (Fin 0) (Fin 1000) (Fin 10) (Fin 0) (Fin 100)
         (map Fin [0, 50, 100]) (map Fin [990, 500, 0]) (map Fin [10, 500, 1000])
         (map Fin [0, 0, 0]) (map Fin [1, 1, 1]) ''none'' = Inr (summary, st)
       \<and> length summary = 7
       \<and> summary ! 0 = ModelLine (Fin (3 / 10)) (Fin 0) PInf
       \<and> summary ! 4 = FastSpread
       \<and> summary ! 6 = AdviseIntervention)"
  using generate_summary_gamma_zero[of "[10, 500, 1000]" "[0, 50, 100]" "[990, 500, 0]" "[0, 0, 0]"
      "[1, 1, 1]" "3 / 10" 1000 10 0 100 "''none''"]
  by simp

text \<open>
  C7. For a trajectory of finite samples that is not empty, \<open>generate_summary\<close> returns
  statistics in which \<open>peak_I\<close> is the greatest value of the I series, \<open>peak_day\<close> is the
  time at the first index \<open>k\<close> where that value occurs (every earlier sample is strictly
  smaller), and \<open>final_S\<close>, \<open>final_I\<close>, \<open>final_R\<close> are the last samples of their series.
\<close>

theorem generate_summary_peak_and_final:
  assumes "I \<noteq> []" "length t = length I" "length S = length I" "length R = length I"
    "length u = length I"
  shows "\<exists>summary st k.
      generate_summary (Fin beta) gamma (Fin N) (Fin I0) (Fin R0) (Fin days)
         (map Fin t) (map Fin S) (map Fin I) (map Fin R) (map Fin u) signal_type = Inr (summary, st)
    \<and> peak_I st = Fin (Max (set I))
    \<and> k < length I \<and> I ! k = Max (set I) \<and> (\<forall>j < k. I ! j < Max (set I))
    \<and> peak_day st = Fin (t ! k)
    \<and> final_S st = Fin (last S) \<and> final_I st = Fin (last I) \<and> final_R st = Fin (last R)"
proof -
  obtain k where k: "nanargmax (map Fin I) = Inr k" "k < length I"
    and mx: "I ! k = Max (set I)" "\<forall>j < k. I ! j < Max (set I)"
    using nanargmax_finite[OF assms(1)] by blast
  obtain line6 summary st where eq: "generate_summary (Fin beta) gamma (Fin N) (Fin I0) (Fin R0)
       (Fin days) (map Fin t) (map Fin S) (map Fin I) (map Fin R) (map Fin u) signal_type =
       Inr (summary, st)"
    and st: "st = \<lparr>peak_I = Fin (I ! k), peak_day = Fin (t ! k),
          final_S = Fin (last S), final_I = Fin (last I), final_R = Fin (last R)\<rparr>"
    using generate_summary_finite[OF assms k, of beta gamma N I0 R0 days signal_type] by blast
  have "peak_I st = Fin (Max (set I))" "peak_day st = Fin (t ! k)"
    "final_S st = Fin (last S)" "final_I st = Fin (last I)" "final_R st = Fin (last R)"
    unfolding st using mx(1) by simp_all
  with eq k(2) mx show ?thesis by blast
qed

theorem generate_summary_peak_and_final_witness:
  "\<exists>summary st k.
      generate_summary (Fin (3 / 10)) (Fin (1 / 10)) (Fin 1000) (Fin 10) (Fin 0) (Fin 100)
         (map Fin [0, 25, 50, 100]) (map Fin [990, 500, 490, 0]) (map Fin [10, 400, 400, 30])
         (map Fin [0, 100, 110, 970]) (map Fin [1, 1, 1, 1]) ''none'' = Inr (summary, st)
    \<and> peak_I st = Fin 400
    \<and> k < length [10, 400, 400, 30::real] \<and> [10, 400, 400, 30::real] ! k = 400
    \<and> (\<forall>j < k. [10, 400, 400, 30::real] ! j < 400)
    \<and> peak_day st = Fin ([0, 25, 50, 100] ! k)
    \<and> final_S st = Fin (last [990, 500, 490, 0]) \<and> final_I st = Fin (last [10, 400, 400, 30])
    \<and> final_R st = Fin (last [0, 100, 110, 970])"
proof -
  have m: "Max (set [10, 400, 400, 30::real]) = 400" by simp
  have "\<exists>summary st k.
      generate_summary (Fin (3 / 10)) (Fin (1 / 10)) (Fin 1000) (Fin 10) (Fin 0) (Fin 100)
         (map Fin [0, 25, 50, 100]) (map Fin [990, 500, 490, 0]) (map Fin [10, 400, 400, 30])
         (map Fin [0, 100, 110, 970]) (map Fin [1, 1, 1, 1]) ''none'' = Inr (summary, st)
    \<and> peak_I st = Fin (Max (set [10, 400, 400, 30]))
    \<and> k < length [10, 400, 400, 30::real] \<and> [10, 400, 400, 30::real] ! k = Max (set [10, 400, 400, 30])
    \<and> (\<forall>j < k. [10, 400, 400, 30::real] ! j < Max (set [10, 400, 400, 30]))
    \<and> peak_day st = Fin ([0, 25, 50, 100] ! k)
    \<and> final_S st = Fin (last [990, 500, 490, 0]) \<and> final_I st = Fin (last [10, 400, 400, 30])
    \<and> final_R st = Fin (last [0, 100, 110, 970])"
    by (rule generate_summary_peak_and_final) simp_all
  then show ?thesis unfolding m .
qed

section \<open>Properties of the simulation\<close>

text \<open>
  Supporting facts: on a time array that is not empty no branch of the control signal
  raises, and the grid of \<open>linspace\<close> from 0 has sample \<open>i\<close> at \<open>i * days / (num - 1)\<close>.
\<close>

lemma control_signal_returns:
  assumes "t \<noteq> []"
  shows "\<exists>u. control_signal t signal_type amp freq step_time = Inr u \<and> length u = length t"
proof -
  obtain x xs where t: "t = x # xs" using assms by (cases t) auto
  show ?thesis
    unfolding t
    by (cases step_time) (simp_all add: control_signal_def ebind_def Let_def)
qed

lemma linspace_grid:
  assumes "0 < num"
  shows "\<exists>ts. linspace (Fin 0) (Fin days) num = Inr ts \<and> length ts = nat num
     \<and> (\<forall>i < nat num. ts ! i = Fin (if num = 1 then 0 else real i * days / real_of_int (num - 1)))"
proof (cases "num = 1")
  case True
  then show ?thesis by (simp add: linspace_def minus_fl_def)
next
  case False
  define n where "n = nat num"
  have n: "1 < n" "num = int n" using assms False by (auto simp: n_def)
  define y where "y = map (\<lambda>i. Fin (real i) * ((Fin days - Fin 0) / Fin (real (n - 1))) + Fin 0) [0..<n]"
  have ly: "length y = n" by (simp add: y_def)
  have yi: "y ! i = Fin (real i * days / real (n - 1))" if "i < n" for i
    using that n by (simp add: y_def minus_fl_def)
  have eq: "linspace (Fin 0) (Fin days) num = Inr (butlast y @ [Fin days])"
    using n by (simp add: linspace_def y_def Let_def)
  have key: "(butlast y @ [Fin days]) ! i = Fin (real i * days / real (n - 1))" if "i < n" for i
  proof (cases "i < n - 1")
    case True
    then show ?thesis using yi[OF that] ly by (simp add: nth_append nth_butlast)
  next
    case False
    then have "i = n - 1" using that by simp
    then show ?thesis using n(1) ly by (simp add: nth_append)
  qed
  have r: "real_of_int (num - 1) = real (n - 1)" using n by simp
  have nn: "nat num = n" by (simp add: n_def)
  have len: "length (butlast y @ [Fin days]) = n" using ly n(1) by simp
  show ?thesis
    unfolding eq nn r using key len False by auto
qed

text \<open>
  C8. Let \<open>odeint\<close> meet what scipy documents for it: on a time grid that is not empty
  it returns one row per time, the first row being the initial state. Then for a
  positive sample count and finite parameters \<open>simulate_sir\<close> returns five series of
  exactly \<open>npoints\<close> samples; the times are evenly spaced from 0 to \<open>days\<close> (sample \<open>i\<close> is
  \<open>i * days / (npoints - 1)\<close>, the single sample of \<open>npoints = 1\<close> is 0); the first sample
  of S, I, R is \<open>(S0, I0, R0)\<close> with \<open>S0 = max(N - I0 - R0, 0)\<close>, which is 0 when
  \<open>I0 + R0\<close> exceeds \<open>N\<close>. The default sample count is 500.
\<close>

theorem simulate_sir_grid:
  assumes "0 < npoints"
    and "\<And>f y0 ts. ts \<noteq> [] \<Longrightarrow> \<exists>ret. odeint f y0 ts = Inr ret \<and> length ret = length ts \<and> ret ! 0 = y0"
  shows "default_npoints = 500 \<and>
    (\<exists>t S I R u.
      simulate_sir odeint (Fin beta) (Fin gamma) (Fin N) (Fin I0) (Fin R0) (Fin days) npoints
        signal_type (Fin amp) (Fin freq) step_time = Inr (t, S, I, R, u)
    \<and> length t = nat npoints \<and> length S = nat npoints \<and> length I = nat npoints
    \<and> length R = nat npoints \<and> length u = nat npoints
    \<and> (\<forall>i < nat npoints.
          t ! i = Fin (if npoints = 1 then 0 else real i * days / real_of_int (npoints - 1)))
    \<and> S ! 0 = Fin (max (N - I0 - R0) 0) \<and> I ! 0 = Fin I0 \<and> R ! 0 = Fin R0)"
proof -
  obtain ts where ts: "linspace (Fin 0) (Fin days) npoints = Inr ts" "length ts = nat npoints"
    "\<forall>i < nat npoints. ts ! i = Fin (if npoints = 1 then 0 else real i * days / real_of_int (npoints - 1))"
    using linspace_grid[OF assms(1)] by blast
  have ne: "ts \<noteq> []" using ts(2) assms(1) by auto
  have s0: "py_max (Fin N - Fin I0 - Fin R0) (Fin 0) = Fin (max (N - I0 - R0) 0)"
    by (simp add: py_max_def minus_fl_def max_def)
  obtain ret where ret: "odeint (\<lambda>y t. sir_ode y t (Fin beta) (Fin gamma) (Fin N) signal_type
        (Fin amp) (Fin freq) step_time) (Fin (max (N - I0 - R0) 0), Fin I0, Fin R0) ts = Inr ret"
    "length ret = length ts" "ret ! 0 = (Fin (max (N - I0 - R0) 0), Fin I0, Fin R0)"
    using assms(2)[OF ne] by blast
  obtain u where u: "control_signal ts signal_type (Fin amp) (Fin freq) step_time = Inr u"
    "length u = length ts"
    using control_signal_returns[OF ne] by blast
  have eq: "simulate_sir odeint (Fin beta) (Fin gamma) (Fin N) (Fin I0) (Fin R0) (Fin days) npoints
        signal_type (Fin amp) (Fin freq) step_time
      = Inr (ts, map fst ret, map (\<lambda>r. fst (snd r)) ret, map (\<lambda>r. snd (snd r)) ret, u)"
    by (simp add: simulate_sir_def s0 ts(1) ret(1) u(1) ebind_def Let_def)
  have pos: "0 < length ret" using ret(2) ne by simp
  have "map fst ret ! 0 = Fin (max (N - I0 - R0) 0)" "map (\<lambda>r. fst (snd r)) ret ! 0 = Fin I0"
    "map (\<lambda>r. snd (snd r)) ret ! 0 = Fin R0"
    using pos ret(3) by (simp_all add: nth_map)
  then show ?thesis
    unfolding eq using ts(2,3) ret(2) u(2) by (simp add: default_npoints_def)
qed

theorem simulate_sir_grid_witness:
  "(0::int) < 3 \<and> default_npoints = 500 \<and>
    (\<exists>t S I R u.
      simulate_sir (\<lambda>f y0 ts. Inr (map (\<lambda>x. y0) ts)) (Fin (3 / 10)) (Fin (1 / 10)) (Fin 100)
        (Fin 80) (Fin 50) (Fin 10) 3 ''none'' (Fin (1 / 2)) (Fin 1) None = Inr (t, S, I, R, u)
    \<and> length t = nat 3 \<and> length S = nat 3 \<and> length I = nat 3
    \<and> length R = nat 3 \<and> length u = nat 3
    \<and> (\<forall>i < nat 3.
          t ! i = Fin (if (3::int) = 1 then 0 else real i * 10 / real_of_int (3 - 1)))
    \<and> S ! 0 = Fin (max (100 - 80 - 50) 0) \<and> I ! 0 = Fin 80 \<and> R ! 0 = Fin 50)"
proof -
  have pos: "(0::int) < 3" by simp
  have contract: "\<exists>ret. (\<lambda>f y0 ts. Inr (map (\<lambda>x. y0) ts)) f y0 ts = (Inr ret :: error + (fl \<times> fl \<times> fl) list)
      \<and> length ret = length ts \<and> ret ! 0 = y0"
    if "ts \<noteq> []" for f :: "fl \<times> fl \<times> fl \<Rightarrow> fl \<Rightarrow> error + (fl \<times> fl \<times> fl)"
      and y0 :: "fl \<times> fl \<times> fl" and ts :: "fl list"
    using that by (cases ts) simp_all
  show ?thesis
    using simulate_sir_grid[of 3 "\<lambda>f y0 ts. Inr (map (\<lambda>x. y0) ts)", OF pos contract] pos
    by blast
qed

section \<open>Properties of the history store\<close>

text \<open>
  C9. On a store whose file is absent, has no line at all, or has a single line (the
  header of a freshly initialised store in particular), \<open>load_history_df\<close> raises
  nothing and returns the frame without rows over the 18 canonical columns, and the
  \<open>/history\<close> route built on it hands an empty table to its template.
\<close>

theorem load_history_df_empty_store:
  assumes "f = Absent \<or> f = Present [] \<or> f = Present [l]"
  shows "length HISTORY_COLUMNS = 18 \<and>
    (\<exists>f'. load_history_df f = Inr (f', \<lparr>columns = HISTORY_COLUMNS, rows = []\<rparr>)
         \<and> history strftime f = Inr (f', []))"
proof -
  have len: "length HISTORY_COLUMNS = 18" by (simp add: HISTORY_COLUMNS_def)
  have ne: "HISTORY_COLUMNS \<noteq> []" by (simp add: HISTORY_COLUMNS_def)
  have "\<exists>f'. load_history_df f = Inr (f', \<lparr>columns = HISTORY_COLUMNS, rows = []\<rparr>)"
    using assms
    by (auto simp: load_history_df_def ensure_history_def to_csv_def df_empty_def ebind_def
          st_size_def Let_def)
  then obtain f' where l: "load_history_df f = Inr (f', \<lparr>columns = HISTORY_COLUMNS, rows = []\<rparr>)"
    by blast
  have "history strftime f = Inr (f', [])"
    by (simp add: history_def l ebind_def df_empty_def)
  with l len show ?thesis by blast
qed

theorem load_history_df_empty_store_witness:
  "(Present [] = Absent \<or> Present [] = Present [] \<or> Present [] = Present [[]])
   \<and> length HISTORY_COLUMNS = 18
   \<and> (\<exists>f'. load_history_df (Present []) = Inr (f', \<lparr>columns = HISTORY_COLUMNS, rows = []\<rparr>)
         \<and> history (\<lambda>s. Inr s) (Present []) = Inr (f', []))"
  using load_history_df_empty_store[of "Present []" "[]" "\<lambda>s. Inr s"] by simp

text \<open>
  C4. Claimed: a record read back by \<open>get_history_entry\<close> matches the entry that was
  appended, \<open>step_time\<close> included. An unset \<open>step_time\<close> is written as the empty-string
  sentinel, which \<open>read_csv\<close> reads back as the missing value NaN: the stored \<open>id\<close> is
  the returned one and \<open>beta\<close> comes back as written, but \<open>step_time\<close> does not. The
  detail route of \<open>app.py\<close> tests the value read back against the sentinel
  (\<open>entry.get("step_time", "") != ""\<close>) and so takes NaN for a step time.
\<close>

theorem history_round_trip_loses_unset_step_time:
  "(case save_history_entry Absent ''id-1'' ''2024-01-01T00:00:00'' (PText ''0.3'') (PText ''0.1'')
          (PText ''1000.0'') (PText ''10.0'') (PText ''0.0'') (PText ''100'') (PText ''step'')
          (PText ''0.5'') (PText ''1.0'') PNone (PText ''ok'') (PText ''12.5'') (PText ''40.0'')
          (PText ''1.0'') (PText ''2.0'') (PText ''997.0'') of
      Inl e \<Rightarrow> False
    | Inr (f, entry_id) \<Rightarrow>
        entry_id = ''id-1'' \<and>
        (case get_history_entry f entry_id of
           Inr (f', Some d) \<Rightarrow>
             map_of d ''id'' = Some (PText ''id-1'') \<and>
             map_of d ''beta'' = Some (PText ''0.3'') \<and>
             map_of d ''step_time'' = Some PNaN \<and> PNaN \<noteq> PText []
         | _ \<Rightarrow> False))"
  by (simp add: save_history_entry_def get_history_entry_def load_history_df_def
        ensure_history_def to_csv_def concat_record_def lookup_cell_def read_cell_def
        na_values_def df_empty_def ebind_def st_size_def line_bytes_def HISTORY_COLUMNS_def
        Let_def)

text \<open>
  Supporting fact: the same entry with a step time that is set comes back as written.
\<close>

lemma history_round_trip_keeps_set_step_time:
  "(case save_history_entry Absent ''id-1'' ''2024-01-01T00:00:00'' (PText ''0.3'') (PText ''0.1'')
          (PText ''1000.0'') (PText ''10.0'') (PText ''0.0'') (PText ''100'') (PText ''step'')
          (PText ''0.5'') (PText ''1.0'') (PText ''50.0'') (PText ''ok'') (PText ''12.5'')
          (PText ''40.0'') (PText ''1.0'') (PText ''2.0'') (PText ''997.0'') of
      Inl e \<Rightarrow> False
    | Inr (f, entry_id) \<Rightarrow>
        (case get_history_entry f entry_id of
           Inr (f', Some d) \<Rightarrow> map_of d ''step_time'' = Some (PText ''50.0'')
         | _ \<Rightarrow> False))"
  by (simp add: save_history_entry_def get_history_entry_def load_history_df_def
        ensure_history_def to_csv_def concat_record_def lookup_cell_def read_cell_def
        na_values_def df_empty_def ebind_def st_size_def line_bytes_def HISTORY_COLUMNS_def
        Let_def)

end
